theory Spec2Isabelle
  imports Complex_Main
begin

section \<open>The periodic hyper-rectangle bound of \<open>tree/dhrectperiodicbound_impl.h\<close>\<close>

text \<open>
  The class \<open>DHrectPeriodicBound<t_pow>\<close> keeps an array \<open>bounds_\<close> of \<open>dim_\<close> ranges and a
  period vector \<open>box_size__\<close>.  The template parameter \<open>t_pow\<close> is the first argument of
  every distance query, a \<^typ>\<open>nat\<close>.  The fields keep their names without the trailing
  underscores; \<open>dim_\<close> is \<open>dimen\<close>.

  A C++ \<open>double\<close> is read as a \<^typ>\<open>real\<close>, and an operation on doubles as the exact one:
  rounding, infinities and NaN are not part of the model.  The two agree where no
  operation rounds a value that is used.  Every method evaluated below is evaluated at
  small integer operands: there each sum, difference, product and power is an integer far
  below \<open>2\<^sup>5\<^sup>3\<close>, and each quotient is either exact or reaches the result only through
  \<open>floor\<close>, of a value that lies between two integers at a distance of a tenth or more from
  both, so that binary64 arithmetic returns the values of the model.  Nothing is proved
  here of a distance query at arbitrary operands, where the result of
  \<open>x - floor(x / w) * w\<close> is decided by rounding.
\<close>

subsection \<open>Data\<close>

record DRange =
  lo :: real
  hi :: real

record DHrectPeriodicBound =
  bounds :: "DRange list"
  dimen :: nat
  box_size :: "real list"

text \<open>
  Modelled from the spec: the macro \<open>DEBUG_SAME_SIZE\<close> is not among the sources.  The spec
  has operands of mismatched dimension fail fast, never proceed: a query whose operands
  differ in dimension ends in \<open>SizeMismatch\<close>.

  The other ways a query has of not returning a number: an index past the end of an array
  or vector is a read the language leaves undefined (\<open>OutOfBounds\<close>), and \<open>pow\<close> has no
  real value on a negative base with a fractional exponent (\<open>NotANumber\<close>), or on a base
  beyond one with an infinite exponent (\<open>Infinite\<close>).
\<close>

datatype error = SizeMismatch | OutOfBounds | NotANumber | Infinite

subsection \<open>The range type\<close>

text \<open>
  Modelled from the spec: the range type \<open>DRange\<close> comes from \<open>math_lib.h\<close>, which is not
  among the sources.  The spec gives its meaning: a range holds the coordinates of
  \<open>[lo, hi]\<close>, its midpoint is the average of \<open>lo\<close> and \<open>hi\<close>, and including a coordinate
  widens the range to cover it when it lies outside.
\<close>

definition DRange_Contains :: "DRange \<Rightarrow> real \<Rightarrow> bool" where
  "DRange_Contains r d = (lo r \<le> d \<and> d \<le> hi r)"

definition DRange_mid :: "DRange \<Rightarrow> real" where
  "DRange_mid r = (hi r + lo r) / 2"

definition DRange_include :: "DRange \<Rightarrow> real \<Rightarrow> DRange" where
  "DRange_include r d =
     (let r1 = (if d < lo r then r\<lparr>lo := d\<rparr> else r)
      in if d > hi r1 then r1\<lparr>hi := d\<rparr> else r1)"

subsection \<open>The two uses of \<open>pow\<close>\<close>

text \<open>
  Each query adds \<open>pow(v, (double) t_pow)\<close> over the axes, which is \<open>v ^ t_pow\<close> for every
  real \<open>v\<close>, and returns \<open>pow(sum, 2.0 / (double) t_pow)\<close>.  The exponent of the latter is
  \<open>2\<close> for \<open>t_pow = 1\<close>, \<open>1\<close> for \<open>t_pow = 2\<close>, a fraction beyond, where a negative sum has
  no power, and infinite for \<open>t_pow = 0\<close>.
\<close>

definition pow_2_over :: "nat \<Rightarrow> real \<Rightarrow> error + real" where
  "pow_2_over t_pow s =
     (if t_pow = 0 then
        (if \<bar>s\<bar> < 1 then Inr 0 else if \<bar>s\<bar> = 1 then Inr 1 else Inl Infinite)
      else if t_pow = 1 then Inr (s ^ 2)
      else if t_pow = 2 then Inr s
      else if s < 0 then Inl NotANumber
      else Inr (s powr (2 / real t_pow)))"

definition div4 :: "error + real \<Rightarrow> error + real" where
  "div4 r = (case r of Inl e \<Rightarrow> Inl e | Inr x \<Rightarrow> Inr (x / 4))"

subsection \<open>Configuration\<close>

definition SetBoxSize :: "DHrectPeriodicBound \<Rightarrow> real list \<Rightarrow> DHrectPeriodicBound" where
  "SetBoxSize b box = b\<lparr>box_size := box\<rparr>"

definition GetBoxSize :: "DHrectPeriodicBound \<Rightarrow> real list" where
  "GetBoxSize b = box_size b"

subsection \<open>Containment and midpoint\<close>

text \<open>
  \<open>Contains\<close> runs over the coordinates of the point, not over the axes of the bound, and
  leaves at the first coordinate outside its range.
\<close>

function Contains_loop :: "DHrectPeriodicBound \<Rightarrow> real list \<Rightarrow> nat \<Rightarrow> error + bool" where
  "Contains_loop b point i =
     (if \<not> i < length point then Inr True
      else if \<not> i < length (bounds b) then Inl OutOfBounds
      else if \<not> DRange_Contains (bounds b ! i) (point ! i) then Inr False
      else Contains_loop b point (i + 1))"
  by pat_completeness auto
termination
  by (relation "measure (\<lambda>(b, point, i). length point - i)") auto

declare Contains_loop.simps [simp del]

definition Contains :: "DHrectPeriodicBound \<Rightarrow> real list \<Rightarrow> error + bool" where
  "Contains b point = Contains_loop b point 0"

definition CalculateMidpoint :: "DHrectPeriodicBound \<Rightarrow> error + real list" where
  "CalculateMidpoint b =
     (if \<not> dimen b \<le> length (bounds b) then Inl OutOfBounds
      else Inr (map (\<lambda>i. DRange_mid (bounds b ! i)) [0..<dimen b]))"

subsection \<open>Distance queries against a point\<close>

definition MinDistanceSq_point_v :: "DHrectPeriodicBound \<Rightarrow> real list \<Rightarrow> nat \<Rightarrow> real" where
  "MinDistanceSq_point_v b point d =
     (let a = point ! d;
          bh = hi (bounds b ! d) - lo (bounds b ! d);
          bh = bh - real_of_int \<lfloor>bh / box_size b ! d\<rfloor> * box_size b ! d;
          a = a - lo (bounds b ! d);
          a = a - real_of_int \<lfloor>a / box_size b ! d\<rfloor> * box_size b ! d
      in if bh > a then min (a - bh) (box_size b ! d - a) else 0)"

definition MinDistanceSq_point :: "nat \<Rightarrow> DHrectPeriodicBound \<Rightarrow> real list \<Rightarrow> error + real" where
  "MinDistanceSq_point t_pow b point =
     (if \<not> (dimen b \<le> length (bounds b) \<and> dimen b \<le> length point
             \<and> dimen b \<le> length (box_size b)) then Inl OutOfBounds
      else pow_2_over t_pow
             (foldl (\<lambda>sum d. sum + MinDistanceSq_point_v b point d ^ t_pow) 0 [0..<dimen b]))"

definition MaxDistanceSq_point_v :: "DHrectPeriodicBound \<Rightarrow> real list \<Rightarrow> nat \<Rightarrow> real" where
  "MaxDistanceSq_point_v b point d =
     (let pb = point ! d;
          v = box_size b ! d / 2;
          ah = hi (bounds b ! d) - pb;
          ah = ah - real_of_int \<lfloor>ah / box_size b ! d\<rfloor> * box_size b ! d
      in if ah < v then ah
         else (let al = lo (bounds b ! d) - pb;
                   al = al - real_of_int \<lfloor>al / box_size b ! d\<rfloor> * box_size b ! d
               in if al > v then (2 * v) - al else v))"

definition MaxDistanceSq_point :: "nat \<Rightarrow> DHrectPeriodicBound \<Rightarrow> real list \<Rightarrow> error + real" where
  "MaxDistanceSq_point t_pow b point =
     (if \<not> (dimen b \<le> length (bounds b) \<and> dimen b \<le> length point
             \<and> dimen b \<le> length (box_size b)) then Inl OutOfBounds
      else pow_2_over t_pow
             (foldl (\<lambda>sum d. sum + \<bar>MaxDistanceSq_point_v b point d\<bar> ^ t_pow) 0 [0..<dimen b]))"

subsection \<open>Distance queries against another bound\<close>

text \<open>
  The operand \<open>other\<close> is a bound of which only \<open>bounds_\<close> and \<open>dim_\<close> are read; it is a
  value of the same record, its period unused.  A comparison used as a factor is \<open>0\<close> or
  \<open>1\<close>.
\<close>

definition MinDistanceSq_bound_v :: "DHrectPeriodicBound \<Rightarrow> DHrectPeriodicBound \<Rightarrow> nat \<Rightarrow> real" where
  "MinDistanceSq_bound_v b other d =
     (let bd = bounds b ! d; od = bounds other ! d;
          d1 = of_bool (hi bd > lo bd \<or> hi od > lo od) *
                 min (lo od - hi bd) (lo bd - hi od);
          d2 = of_bool (hi bd > lo bd \<and> hi od > lo od) *
                 min (lo od - hi bd) (lo bd - hi od + box_size b ! d);
          d3 = of_bool (hi bd > lo bd \<and> hi od > lo od) *
                 min (lo od - hi bd + box_size b ! d) (lo bd - hi od)
      in (d1 + \<bar>d1\<bar>) + (d2 + \<bar>d2\<bar>) + (d3 + \<bar>d3\<bar>))"

definition MinDistanceSq_bound ::
  "nat \<Rightarrow> DHrectPeriodicBound \<Rightarrow> DHrectPeriodicBound \<Rightarrow> error + real" where
  "MinDistanceSq_bound t_pow b other =
     (if dimen b \<noteq> dimen other then Inl SizeMismatch
      else if \<not> (dimen b \<le> length (bounds b) \<and> dimen b \<le> length (bounds other)
                  \<and> dimen b \<le> length (box_size b)) then Inl OutOfBounds
      else div4 (pow_2_over t_pow
             (foldl (\<lambda>sum d. sum + MinDistanceSq_bound_v b other d ^ t_pow) 0 [0..<dimen b])))"

definition MaxDistanceSq_bound_v :: "DHrectPeriodicBound \<Rightarrow> DHrectPeriodicBound \<Rightarrow> nat \<Rightarrow> real" where
  "MaxDistanceSq_bound_v b other d =
     (let v = box_size b ! d / 2;
          dh = hi (bounds b ! d) - lo (bounds other ! d);
          dh = dh - real_of_int \<lfloor>dh / box_size b ! d\<rfloor> * box_size b ! d;
          dl = hi (bounds other ! d) - lo (bounds b ! d);
          dl = dl - real_of_int \<lfloor>dl / box_size b ! d\<rfloor> * box_size b ! d
      in \<bar>max (min dh v) (min dl v)\<bar>)"

definition MaxDistanceSq_bound ::
  "nat \<Rightarrow> DHrectPeriodicBound \<Rightarrow> DHrectPeriodicBound \<Rightarrow> error + real" where
  "MaxDistanceSq_bound t_pow b other =
     (if dimen b \<noteq> dimen other then Inl SizeMismatch
      else if \<not> (dimen b \<le> length (bounds b) \<and> dimen b \<le> length (bounds other)
                  \<and> dimen b \<le> length (box_size b)) then Inl OutOfBounds
      else pow_2_over t_pow
             (foldl (\<lambda>sum d. sum + MaxDistanceSq_bound_v b other d ^ t_pow) 0 [0..<dimen b]))"

definition MaxDelta ::
  "DHrectPeriodicBound \<Rightarrow> DHrectPeriodicBound \<Rightarrow> real \<Rightarrow> nat \<Rightarrow> error + real" where
  "MaxDelta b other box_width axis =
     (if \<not> (axis < length (bounds b) \<and> axis < length (bounds other)) then Inl OutOfBounds
      else
        (let result = 0.5 * box_width;
             temp = hi (bounds other ! axis) - lo (bounds b ! axis);
             temp = temp - real_of_int \<lfloor>temp / box_width\<rfloor> * box_width
         in if temp > box_width / 2 then
              (let temp = lo (bounds other ! axis) - hi (bounds b ! axis);
                   temp = temp - real_of_int \<lfloor>temp / box_width\<rfloor> * box_width
               in if temp > box_width / 2 then
                    (let result = hi (bounds other ! axis) - lo (bounds b ! axis)
                     in Inr (result - real_of_int \<lfloor>temp / box_width + 1\<rfloor> * box_width))
                  else Inr result)
            else Inr temp))"

definition MinDelta ::
  "DHrectPeriodicBound \<Rightarrow> DHrectPeriodicBound \<Rightarrow> real \<Rightarrow> nat \<Rightarrow> error + real" where
  "MinDelta b other box_width axis =
     (if \<not> (axis < length (bounds b) \<and> axis < length (bounds other)) then Inl OutOfBounds
      else
        (let result = - 0.5 * box_width;
             temp = hi (bounds other ! axis) - lo (bounds b ! axis);
             temp = temp - real_of_int \<lfloor>temp / box_width\<rfloor> * box_width
         in if temp > box_width / 2 then
              (let temp = hi (bounds other ! axis) - hi (bounds b ! axis);
                   temp = temp - real_of_int \<lfloor>temp / box_width\<rfloor> * box_width
               in if temp > box_width / 2 then Inr (temp - box_width) else Inr result)
            else
              (let temp = hi (bounds other ! axis) - hi (bounds b ! axis)
               in Inr (temp - real_of_int \<lfloor>temp / box_width\<rfloor> * box_width))))"

text \<open>\<open>RangeDistanceSq\<close> keeps the lower sum and the upper sum side by side.\<close>

definition RangeDistanceSq_v :: "DHrectPeriodicBound \<Rightarrow> DHrectPeriodicBound \<Rightarrow> nat \<Rightarrow> real \<times> real" where
  "RangeDistanceSq_v b other d =
     (let v1 = lo (bounds other ! d) - hi (bounds b ! d);
          v2 = lo (bounds b ! d) - hi (bounds other ! d)
      in if v1 \<ge> v2 then ((if v1 > 0 then v1 else 0), - v2)
         else ((if v2 > 0 then v2 else 0), - v1))"

definition RangeDistanceSq_bound ::
  "nat \<Rightarrow> DHrectPeriodicBound \<Rightarrow> DHrectPeriodicBound \<Rightarrow> error + DRange" where
  "RangeDistanceSq_bound t_pow b other =
     (if dimen b \<noteq> dimen other then Inl SizeMismatch
      else if \<not> (dimen b \<le> length (bounds b) \<and> dimen b \<le> length (bounds other))
        then Inl OutOfBounds
      else
        (let sum_both = foldl (\<lambda>(sum_lo, sum_hi) d.
                       (sum_lo + fst (RangeDistanceSq_v b other d) ^ t_pow,
                        sum_hi + snd (RangeDistanceSq_v b other d) ^ t_pow))
                     (0, 0) [0..<dimen b]
         in case pow_2_over t_pow (fst sum_both) of
              Inl e \<Rightarrow> Inl e
            | Inr l \<Rightarrow> (case pow_2_over t_pow (snd sum_both) of
                          Inl e \<Rightarrow> Inl e
                        | Inr h \<Rightarrow> Inr \<lparr>lo = l, hi = h\<rparr>)))"

definition MinToMidSq_v :: "DHrectPeriodicBound \<Rightarrow> DHrectPeriodicBound \<Rightarrow> nat \<Rightarrow> real" where
  "MinToMidSq_v b other d =
     (let v = DRange_mid (bounds other ! d);
          v1 = lo (bounds b ! d) - v;
          v2 = v - hi (bounds b ! d)
      in (v1 + \<bar>v1\<bar>) + (v2 + \<bar>v2\<bar>))"

definition MinToMidSq ::
  "nat \<Rightarrow> DHrectPeriodicBound \<Rightarrow> DHrectPeriodicBound \<Rightarrow> error + real" where
  "MinToMidSq t_pow b other =
     (if dimen b \<noteq> dimen other then Inl SizeMismatch
      else if \<not> (dimen b \<le> length (bounds b) \<and> dimen b \<le> length (bounds other))
        then Inl OutOfBounds
      else div4 (pow_2_over t_pow
             (foldl (\<lambda>sum d. sum + MinToMidSq_v b other d ^ t_pow) 0 [0..<dimen b])))"

definition MidDistanceSq ::
  "nat \<Rightarrow> DHrectPeriodicBound \<Rightarrow> DHrectPeriodicBound \<Rightarrow> error + real" where
  "MidDistanceSq t_pow b other =
     (if dimen b \<noteq> dimen other then Inl SizeMismatch
      else if \<not> (dimen b \<le> length (bounds b) \<and> dimen b \<le> length (bounds other))
        then Inl OutOfBounds
      else div4 (pow_2_over t_pow
             (foldl (\<lambda>sum d. sum + \<bar>hi (bounds b ! d) + lo (bounds b ! d)
                                       - hi (bounds other ! d) - lo (bounds other ! d)\<bar> ^ t_pow)
                0 [0..<dimen b])))"

subsection \<open>Periodic expansion by a point\<close>

text \<open>
  \<open>Add(other, size)\<close> first looks at \<open>bounds_[0].hi\<close> to catch a bound not yet initialised,
  then walks the axes, moving \<open>hi\<close> or \<open>lo\<close> of an axis onto the coordinate.
\<close>

definition Add_step :: "real list \<Rightarrow> real list \<Rightarrow> DRange list \<Rightarrow> nat \<Rightarrow> DRange list" where
  "Add_step other sizes bs i =
     (let ah = hi (bs ! i) - other ! i;
          al = lo (bs ! i) - other ! i;
          ah = ah - real_of_int \<lfloor>ah / sizes ! i\<rfloor> * sizes ! i;
          al = al - real_of_int \<lfloor>al / sizes ! i\<rfloor> * sizes ! i
      in if ah < al then
           (if sizes ! i - ah < al then bs[i := (bs ! i)\<lparr>hi := other ! i\<rparr>]
            else bs[i := (bs ! i)\<lparr>lo := other ! i\<rparr>])
         else bs)"

definition Add_point ::
  "DHrectPeriodicBound \<Rightarrow> real list \<Rightarrow> real list \<Rightarrow> error + DHrectPeriodicBound" where
  "Add_point b other sizes =
     (if length other \<noteq> dimen b then Inl SizeMismatch
      else if \<not> (0 < length (bounds b) \<and> dimen b \<le> length (bounds b)
                  \<and> dimen b \<le> length sizes) then Inl OutOfBounds
      else
        (let bs = (if hi (bounds b ! 0) < 0
                   then foldl (\<lambda>bs i. bs[i := DRange_include (bs ! i) (other ! i)])
                          (bounds b) [0..<dimen b]
                   else bounds b)
         in Inr (b\<lparr>bounds := foldl (Add_step other sizes) bs [0..<dimen b]\<rparr>)))"

section \<open>Auxiliary facts\<close>

subsection \<open>The axes of a bound of dimension two\<close>

lemma upt_0_2: "[0..<2] = [0, Suc 0]"
  by (simp add: numeral_2_eq_2)

subsection \<open>The loop of \<open>Contains\<close>\<close>

lemma Contains_loop_eq:
  "length point \<le> length (bounds b) \<Longrightarrow>
     Contains_loop b point i
       = Inr (\<forall>j. i \<le> j \<and> j < length point \<longrightarrow> DRange_Contains (bounds b ! j) (point ! j))"
proof (induction b point i rule: Contains_loop.induct)
  case (1 b point i)
  show ?case
  proof (cases "i < length point")
    case False
    then show ?thesis by (auto simp: Contains_loop.simps [of b point i])
  next
    case True
    note inside = this
    show ?thesis
    proof (cases "DRange_Contains (bounds b ! i) (point ! i)")
      case False
      with inside "1.prems" show ?thesis
        by (auto simp: Contains_loop.simps [of b point i])
    next
      case True
      have "(\<forall>j. i \<le> j \<and> j < length point \<longrightarrow> DRange_Contains (bounds b ! j) (point ! j))
          \<longleftrightarrow> (\<forall>j. i + 1 \<le> j \<and> j < length point
                  \<longrightarrow> DRange_Contains (bounds b ! j) (point ! j))"
      proof (intro iffI allI impI)
        fix j
        assume "\<forall>j. i \<le> j \<and> j < length point \<longrightarrow> DRange_Contains (bounds b ! j) (point ! j)"
          and "i + 1 \<le> j \<and> j < length point"
        then show "DRange_Contains (bounds b ! j) (point ! j)" by simp
      next
        fix j
        assume rest: "\<forall>j. i + 1 \<le> j \<and> j < length point
                        \<longrightarrow> DRange_Contains (bounds b ! j) (point ! j)"
          and j: "i \<le> j \<and> j < length point"
        show "DRange_Contains (bounds b ! j) (point ! j)"
        proof (cases "j = i")
          case True
          with \<open>DRange_Contains (bounds b ! i) (point ! i)\<close> show ?thesis by simp
        next
          case False
          with j have "i + 1 \<le> j \<and> j < length point" by simp
          with rest show ?thesis by blast
        qed
      qed
      with inside True "1.prems" "1.IH" show ?thesis
        by (simp add: Contains_loop.simps [of b point i])
    qed
  qed
qed

section \<open>The claims\<close>

subsection \<open>C1: minimum and maximum distance to a point\<close>

text \<open>
  Claim C1 asks that \<open>MinDistanceSq(p) \<le> MaxDistanceSq(p)\<close> for every point, and that the
  minimum distance be zero for a point that \<open>Contains\<close> accepts.  \<open>MinDistanceSq\<close> tests
  \<open>bh > a\<close>, the folded width against the folded offset of the point, where \<open>a > bh\<close> is
  the case of a point outside the bound.  With the bound \<open>[0, 8]\<close> of period \<open>10\<close>: the
  point \<open>1\<close> is inside, its minimum distance comes out as \<open>(1 - 8)\<^sup>2 = 49\<close>, above the
  maximum distance \<open>1\<close>; the point \<open>9\<close> is outside, at distance \<open>1\<close>, and its minimum
  distance comes out as \<open>0\<close>.
\<close>

theorem MinDistanceSq_point_above_MaxDistanceSq:
  "Contains \<lparr>bounds = [\<lparr>lo = 0, hi = 8\<rparr>], dimen = 1, box_size = [10]\<rparr> [1] = Inr True
   \<and> MinDistanceSq_point 2 \<lparr>bounds = [\<lparr>lo = 0, hi = 8\<rparr>], dimen = 1, box_size = [10]\<rparr> [1] = Inr 49
   \<and> MaxDistanceSq_point 2 \<lparr>bounds = [\<lparr>lo = 0, hi = 8\<rparr>], dimen = 1, box_size = [10]\<rparr> [1] = Inr 1
   \<and> \<not> (49 :: real) \<le> 1
   \<and> Contains \<lparr>bounds = [\<lparr>lo = 0, hi = 8\<rparr>], dimen = 1, box_size = [10]\<rparr> [9] = Inr False
   \<and> MinDistanceSq_point 2 \<lparr>bounds = [\<lparr>lo = 0, hi = 8\<rparr>], dimen = 1, box_size = [10]\<rparr> [9] = Inr 0"
  by (simp add: Contains_def Contains_loop.simps DRange_Contains_def
      MinDistanceSq_point_def MinDistanceSq_point_v_def
      MaxDistanceSq_point_def MaxDistanceSq_point_v_def pow_2_over_def Let_def)

subsection \<open>C3: the range of distances between two bounds\<close>

text \<open>
  Claim C3 asks of \<open>RangeDistanceSq\<close> that its pair be ordered and be the pair of
  \<open>MinDistanceSq\<close> and \<open>MaxDistanceSq\<close> against the same bound.  \<open>RangeDistanceSq\<close> never
  reads the period.  With period \<open>10\<close>, the bound \<open>[1, 3]\<close> and the other bound \<open>[7, 9]\<close>,
  it returns \<open>(16, 64)\<close>, the gaps \<open>7 - 3\<close> and \<open>9 - 1\<close> of the line; the two queries fold
  and return \<open>4\<close> and \<open>25\<close>, the gap \<open>(1 + 10) - 9\<close> through the wrap and the half period.
\<close>

theorem RangeDistanceSq_bound_not_periodic:
  "RangeDistanceSq_bound 2 \<lparr>bounds = [\<lparr>lo = 1, hi = 3\<rparr>], dimen = 1, box_size = [10]\<rparr> \<lparr>bounds = [\<lparr>lo = 7, hi = 9\<rparr>], dimen = 1, box_size = [10]\<rparr> = Inr \<lparr>lo = 16, hi = 64\<rparr>
   \<and> MinDistanceSq_bound 2 \<lparr>bounds = [\<lparr>lo = 1, hi = 3\<rparr>], dimen = 1, box_size = [10]\<rparr> \<lparr>bounds = [\<lparr>lo = 7, hi = 9\<rparr>], dimen = 1, box_size = [10]\<rparr> = Inr 4
   \<and> MaxDistanceSq_bound 2 \<lparr>bounds = [\<lparr>lo = 1, hi = 3\<rparr>], dimen = 1, box_size = [10]\<rparr> \<lparr>bounds = [\<lparr>lo = 7, hi = 9\<rparr>], dimen = 1, box_size = [10]\<rparr> = Inr 25"
  by (simp add: RangeDistanceSq_bound_def RangeDistanceSq_v_def
      MinDistanceSq_bound_def MinDistanceSq_bound_v_def
      MaxDistanceSq_bound_def MaxDistanceSq_bound_v_def pow_2_over_def div4_def Let_def)

subsection \<open>C4: the periodic include of a point\<close>

text \<open>
  Claim C4 expects \<open>Add\<close> to widen the bound \<open>[1, 2]\<close> of period \<open>10\<close> to \<open>[9, 12]\<close> (or
  \<open>[9, 2]\<close> on the circle) when the point \<open>9\<close> is included.  The method compares the folded
  offsets the other way round, \<open>ah < al\<close>, which holds for a point inside the bound and
  fails for this one (\<open>ah = 3\<close>, \<open>al = 2\<close>): the bound comes back as it was, and does not
  hold the point.
\<close>

theorem Add_point_leaves_bound:
  "Add_point \<lparr>bounds = [\<lparr>lo = 1, hi = 2\<rparr>], dimen = 1, box_size = [10]\<rparr> [9] [10]
     = Inr \<lparr>bounds = [\<lparr>lo = 1, hi = 2\<rparr>], dimen = 1, box_size = [10]\<rparr>"
  by (simp add: Add_point_def Add_step_def Let_def)

subsection \<open>C5: the single-axis deltas\<close>

text \<open>
  Claim C5 bounds \<open>MaxDelta\<close> and \<open>MinDelta\<close> by half the period.  With period \<open>10\<close>:
  \<open>MaxDelta\<close> of the bound \<open>[8, 9]\<close> against \<open>[5, 5]\<close> is \<open>-13\<close>, since its last branch takes
  one period off the difference \<open>hi - lo\<close> not yet folded; \<open>MinDelta\<close> of \<open>[0, 4]\<close> against
  \<open>[1, 3]\<close> is \<open>9\<close>, since its last branch folds into \<open>[0, 10)\<close> and stops there.
\<close>

theorem MaxDelta_MinDelta_beyond_half_period:
  "MaxDelta \<lparr>bounds = [\<lparr>lo = 8, hi = 9\<rparr>], dimen = 1, box_size = [10]\<rparr>
            \<lparr>bounds = [\<lparr>lo = 5, hi = 5\<rparr>], dimen = 1, box_size = [10]\<rparr> 10 0 = Inr (- 13)
   \<and> MinDelta \<lparr>bounds = [\<lparr>lo = 0, hi = 4\<rparr>], dimen = 1, box_size = [10]\<rparr>
              \<lparr>bounds = [\<lparr>lo = 1, hi = 3\<rparr>], dimen = 1, box_size = [10]\<rparr> 10 0 = Inr 9
   \<and> \<not> \<bar>- 13 :: real\<bar> \<le> 10 / 2 \<and> \<not> \<bar>9 :: real\<bar> \<le> 10 / 2"
  by (simp add: MaxDelta_def MinDelta_def Let_def)

subsection \<open>C6: the period is stored as given\<close>

text \<open>
  Claim C6 asks that a period vector with a zero or negative component be rejected when the
  bound is configured.  \<open>SetBoxSize\<close> has no test and no way to fail: the vector \<open>[0, -1]\<close>
  is stored and read back.
\<close>

theorem SetBoxSize_stores_nonpositive:
  "GetBoxSize (SetBoxSize \<lparr>bounds = [\<lparr>lo = 1, hi = 3\<rparr>, \<lparr>lo = 1, hi = 3\<rparr>], dimen = 2,
                           box_size = [10, 10]\<rparr> [0, - 1]) = [0, - 1]"
  by (simp add: GetBoxSize_def SetBoxSize_def)

text \<open>
  Claim C6, as amended.  \<open>SetBoxSize\<close> stores every period vector unchanged, whatever its
  components, leaves the extents and the dimension alone, and \<open>GetBoxSize\<close> returns the
  vector stored.
\<close>

theorem SetBoxSize_stores:
  "GetBoxSize (SetBoxSize b box) = box
   \<and> bounds (SetBoxSize b box) = bounds b
   \<and> dimen (SetBoxSize b box) = dimen b"
  by (simp add: GetBoxSize_def SetBoxSize_def)

subsection \<open>C8: two squares on opposite sides of the wrap\<close>

text \<open>
  Claim C8.  With period \<open>[10, 10]\<close>, \<open>A = {[1,3], [1,3]}\<close>, \<open>B = {[7,9], [7,9]}\<close> and
  \<open>t_pow = 2\<close>, \<open>A.MinDistanceSq(B)\<close> is \<open>2 * (10 - 9 + 1)\<^sup>2 = 8\<close>, below \<open>2 * 6\<^sup>2 = 72\<close>.
  The latter is what \<open>MidDistanceSq\<close>, which does not fold, returns for the two bounds.
\<close>

theorem MinDistanceSq_bound_wrapped_example:
  "MinDistanceSq_bound 2
     \<lparr>bounds = [\<lparr>lo = 1, hi = 3\<rparr>, \<lparr>lo = 1, hi = 3\<rparr>], dimen = 2, box_size = [10, 10]\<rparr>
     \<lparr>bounds = [\<lparr>lo = 7, hi = 9\<rparr>, \<lparr>lo = 7, hi = 9\<rparr>], dimen = 2, box_size = [10, 10]\<rparr>
     = Inr (2 * (10 - 9 + 1)\<^sup>2)
   \<and> (2 * (10 - 9 + 1)\<^sup>2 :: real) = 8
   \<and> (8 :: real) < 2 * 6\<^sup>2
   \<and> MidDistanceSq 2
     \<lparr>bounds = [\<lparr>lo = 1, hi = 3\<rparr>, \<lparr>lo = 1, hi = 3\<rparr>], dimen = 2, box_size = [10, 10]\<rparr>
     \<lparr>bounds = [\<lparr>lo = 7, hi = 9\<rparr>, \<lparr>lo = 7, hi = 9\<rparr>], dimen = 2, box_size = [10, 10]\<rparr>
     = Inr (2 * 6\<^sup>2)"
  by (simp add: MinDistanceSq_bound_def MinDistanceSq_bound_v_def MidDistanceSq_def
      pow_2_over_def div4_def Let_def upt_0_2)

subsection \<open>C9: the distance to the midpoint of another bound\<close>

text \<open>
  Claim C9 repeats the comment above \<open>MinToMidSq\<close>: the result is \<open>MinDistanceSq\<close> at the
  midpoint of the other bound.  With period \<open>10\<close>, the bound \<open>[1, 3]\<close> and the other bound
  \<open>[7, 9]\<close>, the midpoint is \<open>8\<close>; \<open>MinToMidSq\<close> does not fold and returns \<open>(8 - 3)\<^sup>2 = 25\<close>,
  \<open>MinDistanceSq\<close> at \<open>8\<close> returns \<open>0\<close>.
\<close>

theorem MinToMidSq_differs_from_MinDistanceSq:
  "MinToMidSq 2 \<lparr>bounds = [\<lparr>lo = 1, hi = 3\<rparr>], dimen = 1, box_size = [10]\<rparr>
                \<lparr>bounds = [\<lparr>lo = 7, hi = 9\<rparr>], dimen = 1, box_size = [10]\<rparr> = Inr 25
   \<and> CalculateMidpoint \<lparr>bounds = [\<lparr>lo = 7, hi = 9\<rparr>], dimen = 1, box_size = [10]\<rparr> = Inr [8]
   \<and> MinDistanceSq_point 2 \<lparr>bounds = [\<lparr>lo = 1, hi = 3\<rparr>], dimen = 1, box_size = [10]\<rparr> [8]
       = Inr 0"
  by (simp add: MinToMidSq_def MinToMidSq_v_def CalculateMidpoint_def DRange_mid_def
      MinDistanceSq_point_def MinDistanceSq_point_v_def pow_2_over_def div4_def Let_def)

subsection \<open>C10: a point shorter than the bound\<close>

text \<open>
  Claim C10.  For a point with fewer coordinates than the bound has axes, \<open>Contains\<close> is
  true exactly when each coordinate lies in the range of its axis; the ranges of the
  remaining axes can be replaced by any others without changing the answer.
\<close>

theorem Contains_first_axes:
  assumes "length point < dimen b" and "length (bounds b) = dimen b"
  shows "Contains b point
           = Inr (\<forall>i<length point. DRange_Contains (bounds b ! i) (point ! i))
       \<and> (\<forall>rest. Contains (b\<lparr>bounds := take (length point) (bounds b) @ rest\<rparr>) point
                   = Contains b point)"
proof -
  have a: "Contains b' point = Inr (\<forall>i<length point. DRange_Contains (bounds b' ! i) (point ! i))"
    if "length point \<le> length (bounds b')" for b'
    using that by (simp add: Contains_def Contains_loop_eq)
  have "Contains (b\<lparr>bounds := take (length point) (bounds b) @ rest\<rparr>) point = Contains b point"
    for rest
    using assms by (simp add: a nth_append)
  moreover have "Contains b point
           = Inr (\<forall>i<length point. DRange_Contains (bounds b ! i) (point ! i))"
    using assms by (simp add: a)
  ultimately show ?thesis by blast
qed

text \<open>
  A bound of two axes, the second one empty, and the point \<open>[2]\<close>.
\<close>

theorem Contains_first_axes_witness:
  "length [2 :: real] < dimen \<lparr>bounds = [\<lparr>lo = 1, hi = 3\<rparr>, \<lparr>lo = 5, hi = 4\<rparr>], dimen = 2, box_size = [10, 10]\<rparr>
   \<and> length (bounds \<lparr>bounds = [\<lparr>lo = 1, hi = 3\<rparr>, \<lparr>lo = 5, hi = 4\<rparr>], dimen = 2, box_size = [10, 10]\<rparr>) = dimen \<lparr>bounds = [\<lparr>lo = 1, hi = 3\<rparr>, \<lparr>lo = 5, hi = 4\<rparr>], dimen = 2, box_size = [10, 10]\<rparr>
   \<and> Contains \<lparr>bounds = [\<lparr>lo = 1, hi = 3\<rparr>, \<lparr>lo = 5, hi = 4\<rparr>], dimen = 2, box_size = [10, 10]\<rparr> [2] = Inr True
   \<and> Contains (\<lparr>bounds = [\<lparr>lo = 1, hi = 3\<rparr>, \<lparr>lo = 5, hi = 4\<rparr>], dimen = 2, box_size = [10, 10]\<rparr>\<lparr>bounds := take (length [2 :: real]) (bounds \<lparr>bounds = [\<lparr>lo = 1, hi = 3\<rparr>, \<lparr>lo = 5, hi = 4\<rparr>], dimen = 2, box_size = [10, 10]\<rparr>) @ [\<lparr>lo = 100, hi = 200\<rparr>]\<rparr>) [2]
       = Inr True"
  using Contains_first_axes [of "[2]" "\<lparr>bounds = [\<lparr>lo = 1, hi = 3\<rparr>, \<lparr>lo = 5, hi = 4\<rparr>], dimen = 2, box_size = [10, 10]\<rparr>"]
  by (auto simp: DRange_Contains_def)

end
